theory Spec2Isabelle
  imports Complex_Main
begin

section \<open>Constants (utils/constants.ts)\<close>

definition HTTP_STATUS_OK :: nat where "HTTP_STATUS_OK = 200"
definition HTTP_STATUS_CREATED :: nat where "HTTP_STATUS_CREATED = 201"
definition HTTP_STATUS_BAD_REQUEST :: nat where "HTTP_STATUS_BAD_REQUEST = 400"
definition HTTP_STATUS_NOT_FOUND :: nat where "HTTP_STATUS_NOT_FOUND = 404"
definition HTTP_STATUS_INTERNAL_SERVER_ERROR :: nat where "HTTP_STATUS_INTERNAL_SERVER_ERROR = 500"
definition HTTP_STATUS_BAD_GATEWAY :: nat where "HTTP_STATUS_BAD_GATEWAY = 502"
definition HTTP_STATUS_SERVICE_UNAVAILABLE :: nat where "HTTP_STATUS_SERVICE_UNAVAILABLE = 503"

definition ERROR_MESSAGES_VALIDATION_ERROR :: string where
  "ERROR_MESSAGES_VALIDATION_ERROR = ''Validation error''"
definition ERROR_MESSAGES_ML_SERVICE_ERROR :: string where
  "ERROR_MESSAGES_ML_SERVICE_ERROR = ''ML service communication error''"
definition ERROR_MESSAGES_INTERNAL_ERROR :: string where
  "ERROR_MESSAGES_INTERNAL_ERROR = ''Internal server error''"
definition ERROR_MESSAGES_NOT_FOUND :: string where
  "ERROR_MESSAGES_NOT_FOUND = ''Resource not found''"

section \<open>JavaScript values\<close>

text \<open>
  The value of one field of a request body (\<open>req.body.f\<close>), as far as the
  controllers and validators look at it:
  \<^item> \<open>Undefined\<close>: the field is absent;
  \<^item> \<open>Num r\<close>: the JSON number \<open>r\<close>;
  \<^item> \<open>NumStr r\<close>: a JSON string that holds the plain decimal numeral of \<open>r\<close> (a sign,
    digits, a fraction), as every field of a form-encoded body is;
  \<^item> \<open>NonNumeric t\<close>: any other JSON value that the validators \<open>isNumeric\<close> and \<open>isFloat\<close>
    reject (\<open>null\<close>, a boolean, an object, a word, a list of words), carried as its JSON
    text \<open>t\<close>.
  Arrays of numerals, and strings that only one of the two validators accepts, are
  outside this type. Numbers are exact rationals, not IEEE doubles: the rounding of a
  JSON number to the nearest double is left out.
\<close>

datatype jsvalue = Undefined | Num rat | NumStr rat | NonNumeric string

text \<open>The number that a value denotes when it is a numeral.\<close>

fun numeral_value :: "jsvalue \<Rightarrow> rat option" where
  "numeral_value (Num r) = Some r"
| "numeral_value (NumStr r) = Some r"
| "numeral_value v = None"

text \<open>
  \<open>String(x)\<close> of a number \<open>x\<close> is in plain decimal notation (a sign, digits, a fraction)
  when \<open>x\<close> is 0 or \<open>10^-6 \<le> |x| < 10^21\<close>; every other number is printed with an exponent
  (\<open>1e+21\<close>, \<open>1e-7\<close>).
\<close>

definition prints_plain :: "rat \<Rightarrow> bool" where
  "prints_plain x \<longleftrightarrow> x = 0 \<or> (1 / 10 ^ 6 \<le> \<bar>x\<bar> \<and> \<bar>x\<bar> < 10 ^ 21)"

text \<open>The number that a value denotes when its string form is a plain decimal numeral:
  a numeral string, or a number that is printed without an exponent.\<close>

fun plain_numeral :: "jsvalue \<Rightarrow> rat option" where
  "plain_numeral (Num r) = (if prints_plain r then Some r else None)"
| "plain_numeral (NumStr r) = Some r"
| "plain_numeral v = None"

text \<open>The JSON text of a string: the string between double quotes.\<close>

definition json_string :: "string \<Rightarrow> string" where
  "json_string s = CHR 0x22 # s @ [CHR 0x22]"

text \<open>A value thrown by JavaScript code: an \<open>Error\<close> object with its message, or
  anything else (\<open>throw\<close> accepts every value).\<close>

datatype js_thrown = Error string | NonError string

text \<open>A JSON document, as sent in a response body.\<close>

datatype json =
    JNull
  | JBool bool
  | JNum rat
  | JStr string
  | JArr "json list"
  | JObj "(string \<times> json) list"

text \<open>Property access \<open>o.k\<close> on a JSON value (\<open>None\<close> is \<open>undefined\<close>).\<close>

fun get_prop :: "json \<Rightarrow> string \<Rightarrow> json option" where
  "get_prop (JObj kvs) k = map_of kvs k"
| "get_prop _ k = None"

fun object_keys :: "json \<Rightarrow> string list" where
  "object_keys (JObj kvs) = map fst kvs"
| "object_keys _ = []"

section \<open>Data model (types/index.ts)\<close>

record UserProfile =
  income :: jsvalue
  spending_score :: jsvalue
  saving_frequency :: jsvalue
  loan_behavior :: jsvalue

record RecommendationResponse =
  recommended_account :: string
  recommended_savings :: string
  recommended_loan :: string
  recommended_digital_service :: string
  cluster_segment :: int

record UsageLog =
  user_id :: jsvalue
  action :: jsvalue
  metadata :: jsvalue

text \<open>
  A response: \<open>res.status(status).json({success, message, data, error, errors})\<close>.
  \<open>success\<close>, \<open>message\<close> and \<open>data\<close> are the interface \<open>ApiResponse\<close>; \<open>error\<close> and
  \<open>errors\<close> are the two further keys that the recommendation controller and the
  validation middleware send. \<open>None\<close> is a key that is not sent.
\<close>

record ValidationError =
  param :: string
  msg :: string
  "value" :: jsvalue

record 'd response =
  status :: nat
  success :: bool
  message :: "string option"
  data :: "'d option"
  error :: "string option"
  errors :: "ValidationError list option"

text \<open>What an Express handler does with a request: it sends a response, calls
  \<open>next()\<close>, or calls \<open>next(error)\<close>.\<close>

datatype 'd handler_result = Respond "'d response" | Next | NextError js_thrown

text \<open>A request body: \<open>req.body.f\<close> is \<open>body f\<close>.\<close>

type_synonym body = "string \<Rightarrow> jsvalue"

section \<open>The ML service client (services/ml.service.ts)\<close>

text \<open>
  How an axios call ends. It resolves with a status and a body, or it rejects: with an
  \<open>AxiosError\<close> (its message, and the status of the response when one was received), or
  with some other thrown value.
\<close>

datatype 'd axios_result =
    Resolved nat 'd
  | AxiosError string "nat option"
  | Thrown js_thrown

text \<open>
  What lies outside the backend process: the ML service behind the axios client (what
  \<open>POST /predict\<close> answers to a profile, what \<open>GET /health\<close> answers) and the clock
  (\<open>new Date().toISOString()\<close>).
\<close>

record 'd world =
  post_predict :: "UserProfile \<Rightarrow> 'd axios_result"
  get_health :: "'d axios_result"
  now :: string

text \<open>\<open>MLServiceClient.predict\<close>. \<open>Inl\<close> is a throw.\<close>

definition predict :: "'d world \<Rightarrow> UserProfile \<Rightarrow> js_thrown + 'd" where
  "predict w profile =
     (case post_predict w profile of
        Resolved st d \<Rightarrow> Inr d
      | AxiosError m st \<Rightarrow> Inl (Error (''ML Service error: '' @ m))
      | Thrown e \<Rightarrow> Inl (Error ''Unexpected error communicating with ML Service''))"

text \<open>\<open>MLServiceClient.healthCheck\<close>.\<close>

definition healthCheck :: "'d world \<Rightarrow> js_thrown + bool" where
  "healthCheck w =
     (case get_health w of
        Resolved st d \<Rightarrow> Inr (st = 200)
      | AxiosError m st \<Rightarrow> Inr False
      | Thrown e \<Rightarrow> Inr False)"

section \<open>Validation (validators/profile.validator.ts, middleware/validation.middleware.ts)\<close>

text \<open>
  The validators of express-validator that \<open>profileValidationRules\<close> chains, on the
  values of \<^typ>\<open>jsvalue\<close>: \<open>exists()\<close> fails on \<open>undefined\<close> only; \<open>isNumeric()\<close> and
  \<open>isFloat({min, max})\<close> look at the string form of the value (\<open>String(value)\<close> for a
  number). \<open>isNumeric()\<close> holds of a plain decimal numeral: of a numeral string, and of a
  number that is printed without an exponent. \<open>isFloat({min, max})\<close> reads an exponent
  too: it holds of every numeral whose value is within the bounds given.
\<close>

datatype validator = Exists | IsNumeric | IsFloat "rat option" "rat option"

fun passes :: "validator \<Rightarrow> jsvalue \<Rightarrow> bool" where
  "passes Exists v = (v \<noteq> Undefined)"
| "passes IsNumeric v = (plain_numeral v \<noteq> None)"
| "passes (IsFloat lo hi) v =
     (case numeral_value v of
        None \<Rightarrow> False
      | Some r \<Rightarrow> (case lo of None \<Rightarrow> True | Some l \<Rightarrow> l \<le> r)
                \<and> (case hi of None \<Rightarrow> True | Some h \<Rightarrow> r \<le> h))"

text \<open>A rule: \<open>body(field)\<close> followed by its chain, each validator with the message
  that \<open>withMessage\<close> attaches to it.\<close>

type_synonym rule = "string \<times> (validator \<times> string) list"

definition profileValidationRules :: "rule list" where
  "profileValidationRules =
    [(''income'',
        [(Exists, ''Income is required''),
         (IsNumeric, ''Income must be a number''),
         (IsFloat (Some 0) None, ''Income must be non-negative'')]),
     (''spending_score'',
        [(Exists, ''Spending score is required''),
         (IsNumeric, ''Spending score must be a number''),
         (IsFloat (Some 0) (Some 100), ''Spending score must be between 0 and 100'')]),
     (''saving_frequency'',
        [(Exists, ''Saving frequency is required''),
         (IsNumeric, ''Saving frequency must be a number''),
         (IsFloat (Some 0) (Some 10), ''Saving frequency must be between 0 and 10'')]),
     (''loan_behavior'',
        [(Exists, ''Loan behavior is required''),
         (IsNumeric, ''Loan behavior must be a number''),
         (IsFloat (Some 0) (Some 5), ''Loan behavior must be between 0 and 5'')])]"

text \<open>\<open>validation.run(req)\<close>: every validator of the chain that fails on the field's
  value records an error with its message.\<close>

definition run :: "rule \<Rightarrow> body \<Rightarrow> ValidationError list" where
  "run validation b =
     map (\<lambda>(v, m). \<lparr>param = fst validation, msg = m, value = b (fst validation)\<rparr>)
       (filter (\<lambda>(v, m). \<not> passes v (b (fst validation))) (snd validation))"

text \<open>\<open>validationResult(req)\<close> after all the validations have run.\<close>

definition validationResult :: "rule list \<Rightarrow> body \<Rightarrow> ValidationError list" where
  "validationResult validations b = concat (map (\<lambda>validation. run validation b) validations)"

definition validate :: "rule list \<Rightarrow> body \<Rightarrow> 'd handler_result" where
  "validate validations b =
     (let errors = validationResult validations b in
      if errors = [] then Next
      else Respond \<lparr>status = HTTP_STATUS_BAD_REQUEST, success = False,
             message = Some ERROR_MESSAGES_VALIDATION_ERROR, data = None,
             error = None, errors = Some errors\<rparr>)"

section \<open>Recommendation (controllers/recommendation.controller.ts, routes/recommendation.routes.ts)\<close>

text \<open>What handling one request did: the handler's result, and the profiles that were
  posted to the ML service on the way, in order. Logging is left out: the logger
  neither throws nor changes what a handler answers.\<close>

record 'd outcome =
  result :: "'d handler_result"
  ml_requests :: "UserProfile list"

definition getRecommendation :: "'d world \<Rightarrow> body \<Rightarrow> 'd outcome" where
  "getRecommendation w b =
     (let profile = \<lparr>income = b ''income'', spending_score = b ''spending_score'',
                      saving_frequency = b ''saving_frequency'',
                      loan_behavior = b ''loan_behavior''\<rparr>
      in \<lparr>result =
            (case predict w profile of
               Inr recommendation \<Rightarrow>
                 Respond \<lparr>status = HTTP_STATUS_OK, success = True, message = None,
                   data = Some recommendation, error = None, errors = None\<rparr>
             | Inl (Error m) \<Rightarrow>
                 Respond \<lparr>status = HTTP_STATUS_BAD_GATEWAY, success = False,
                   message = Some ERROR_MESSAGES_ML_SERVICE_ERROR, data = None,
                   error = Some m, errors = None\<rparr>
             | Inl e \<Rightarrow> NextError e),
          ml_requests = [profile]\<rparr>)"

text \<open>\<open>router.post('/', validate(profileValidationRules), getRecommendation)\<close>: Express
  runs the second handler when, and only when, the first one calls \<open>next()\<close>.\<close>

definition recommendation_routes_post :: "'d world \<Rightarrow> body \<Rightarrow> 'd outcome" where
  "recommendation_routes_post w b =
     (case validate profileValidationRules b of
        Next \<Rightarrow> getRecommendation w b
      | r \<Rightarrow> \<lparr>result = r, ml_requests = []\<rparr>)"

text \<open>The JSON object of a value of the interface \<open>RecommendationResponse\<close>.\<close>

definition RecommendationResponse_json :: "RecommendationResponse \<Rightarrow> json" where
  "RecommendationResponse_json r =
     JObj [(''recommended_account'', JStr (recommended_account r)),
           (''recommended_savings'', JStr (recommended_savings r)),
           (''recommended_loan'', JStr (recommended_loan r)),
           (''recommended_digital_service'', JStr (recommended_digital_service r)),
           (''cluster_segment'', JNum (of_int (cluster_segment r)))]"

section \<open>Health (routes/health.routes.ts)\<close>

text \<open>\<open>router.get('/health', ...)\<close>: the status and the JSON object sent.\<close>

definition health_routes_get :: "'d world \<Rightarrow> nat \<times> json" where
  "health_routes_get w =
     (200, JObj [(''success'', JBool True),
                 (''message'', JStr ''Backend service is healthy''),
                 (''timestamp'', JStr (now w)),
                 (''service'', JStr ''smartbank-backend'')])"

section \<open>\<open>parseInt(s, 10)\<close>\<close>

text \<open>
  A JavaScript number as \<open>parseInt\<close> returns it: \<open>NaN\<close> or an integer (exact here, where
  JavaScript rounds to the nearest double; \<open>-0\<close> is \<open>0\<close>). \<open>parseInt\<close> skips leading white
  space, reads a sign, then the longest run of decimal digits, and ignores what follows;
  without a digit the result is \<open>NaN\<close>. The strings are ASCII.
\<close>

datatype jsnumber = NaN | Finite int

definition isWhiteSpace :: "char \<Rightarrow> bool" where
  "isWhiteSpace c = (of_char c \<in> {9, 10, 11, 12, 13, 32 :: nat})"

definition isDigit :: "char \<Rightarrow> bool" where
  "isDigit c = (48 \<le> (of_char c :: nat) \<and> (of_char c :: nat) \<le> 57)"

definition digits_value :: "string \<Rightarrow> int" where
  "digits_value Z = foldl (\<lambda>a c. 10 * a + (int (of_char c) - 48)) 0 Z"

definition parseInt :: "string \<Rightarrow> jsnumber" where
  "parseInt s =
     (let S = dropWhile isWhiteSpace s;
          sign = (if S \<noteq> [] \<and> hd S = CHR ''-'' then - 1 else 1);
          S' = (if S \<noteq> [] \<and> (hd S = CHR ''+'' \<or> hd S = CHR ''-'') then tl S else S);
          Z = takeWhile isDigit S'
      in if Z = [] then NaN else Finite (sign * digits_value Z))"

section \<open>Profiles (controllers/profile.controller.ts)\<close>

text \<open>\<open>UserProfile & { id; created_at; updated_at }\<close>; the field \<open>id\<close> is \<open>id'\<close> here.\<close>

record StoredProfile = UserProfile +
  id' :: int
  created_at :: string
  updated_at :: string

text \<open>The module's state: the map \<open>profiles\<close> and the counter \<open>nextId\<close> (an unbounded
  integer here; a JavaScript number stops counting at \<open>2^53\<close>). The controllers' \<open>catch\<close>
  blocks, which call \<open>next(error)\<close>, are reached only when logging or sending the response
  throws; they have no branch here.\<close>

record profile_store =
  profiles :: "int \<rightharpoonup> StoredProfile"
  nextId :: int

definition profile_store_init :: profile_store where
  "profile_store_init = \<lparr>profiles = Map.empty, nextId = 1\<rparr>"

definition createProfile ::
  "'d world \<Rightarrow> profile_store \<Rightarrow> body \<Rightarrow> profile_store \<times> StoredProfile handler_result" where
  "createProfile w st b =
     (let profile = \<lparr>income = b ''income'', spending_score = b ''spending_score'',
                      saving_frequency = b ''saving_frequency'',
                      loan_behavior = b ''loan_behavior''\<rparr>;
          id = nextId st;
          timestamp = now w;
          storedProfile =
            \<lparr>income = income profile, spending_score = spending_score profile,
             saving_frequency = saving_frequency profile,
             loan_behavior = loan_behavior profile,
             id' = id, created_at = timestamp, updated_at = timestamp\<rparr>
      in (st\<lparr>profiles := (profiles st)(id \<mapsto> storedProfile), nextId := nextId st + 1\<rparr>,
          Respond \<lparr>status = HTTP_STATUS_CREATED, success = True,
            message = Some ''Profile created successfully'', data = Some storedProfile,
            error = None, errors = None\<rparr>))"

text \<open>\<open>getProfile\<close>: the second argument is \<open>req.params.id\<close>.\<close>

definition getProfile ::
  "profile_store \<Rightarrow> string \<Rightarrow> profile_store \<times> StoredProfile handler_result" where
  "getProfile st idParam =
     (case parseInt idParam of
        NaN \<Rightarrow>
          (st, Respond \<lparr>status = HTTP_STATUS_BAD_REQUEST, success = False,
                 message = Some ''Invalid user ID'', data = None, error = None, errors = None\<rparr>)
      | Finite i \<Rightarrow>
          (case profiles st i of
             None \<Rightarrow>
               (st, Respond \<lparr>status = HTTP_STATUS_NOT_FOUND, success = False,
                      message = Some ''User profile not found'', data = None,
                      error = None, errors = None\<rparr>)
           | Some profile \<Rightarrow>
               (st, Respond \<lparr>status = HTTP_STATUS_OK, success = True, message = None,
                      data = Some profile, error = None, errors = None\<rparr>)))"

text \<open>The requests that reach the profile controller, and the store after a sequence
  of them.\<close>

datatype 'd profile_request = CreateProfile "'d world" body | GetProfile string

fun profile_step :: "profile_store \<Rightarrow> 'd profile_request \<Rightarrow> profile_store" where
  "profile_step st (CreateProfile w b) = fst (createProfile w st b)"
| "profile_step st (GetProfile idParam) = fst (getProfile st idParam)"

definition profile_run :: "'d profile_request list \<Rightarrow> profile_store" where
  "profile_run reqs = foldl profile_step profile_store_init reqs"

fun is_create :: "'d profile_request \<Rightarrow> bool" where
  "is_create (CreateProfile w b) = True"
| "is_create (GetProfile idParam) = False"

text \<open>The invariant of the store: the keys are \<open>1, ..., nextId - 1\<close>, every entry
  carries its key as its id, and its two time stamps agree.\<close>

definition profile_store_inv :: "profile_store \<Rightarrow> bool" where
  "profile_store_inv st \<longleftrightarrow>
     dom (profiles st) = {1 ..< nextId st} \<and> 1 \<le> nextId st \<and>
     (\<forall>k p. profiles st k = Some p \<longrightarrow> id' p = k \<and> created_at p = updated_at p)"

section \<open>Usage logs (controllers/usage.controller.ts)\<close>

text \<open>\<open>UsageLog & { id; timestamp }\<close>; the field \<open>id\<close> is \<open>entry_id\<close> here.\<close>

record LogEntry = UsageLog +
  entry_id :: int
  timestamp :: string

record usage_store =
  usageLogs :: "LogEntry list"
  nextLogId :: int

text \<open>JavaScript's truthiness, of a body value and of \<open>userId\<close> (\<open>null\<close> or a number).\<close>

fun truthy :: "jsvalue \<Rightarrow> bool" where
  "truthy Undefined = False"
| "truthy (Num r) = (r \<noteq> 0)"
| "truthy (NumStr r) = True"
| "truthy (NonNumeric t) = (t \<noteq> ''null'' \<and> t \<noteq> ''false'' \<and> t \<noteq> json_string [])"

definition logUsage ::
  "'d world \<Rightarrow> usage_store \<Rightarrow> body \<Rightarrow> usage_store \<times> LogEntry handler_result" where
  "logUsage w st b =
     (let logEntry =
            \<lparr>user_id = b ''user_id'', action = b ''action'',
             metadata = (if truthy (b ''metadata'') then b ''metadata'' else NonNumeric ''{}''),
             entry_id = nextLogId st, timestamp = now w\<rparr>
      in (st\<lparr>usageLogs := usageLogs st @ [logEntry], nextLogId := nextLogId st + 1\<rparr>,
          Respond \<lparr>status = HTTP_STATUS_CREATED, success = True,
            message = Some ''Usage event logged successfully'', data = Some logEntry,
            error = None, errors = None\<rparr>))"

text \<open>\<open>getUsageLogs\<close>: the second argument is \<open>req.query.user_id\<close>, \<open>None\<close> when the query
  has no such parameter, a string otherwise.\<close>

definition getUsageLogs ::
  "usage_store \<Rightarrow> string option \<Rightarrow> usage_store \<times> LogEntry list handler_result" where
  "getUsageLogs st q =
     (let userId = (case q of None \<Rightarrow> None
                    | Some s \<Rightarrow> if s = [] then None else Some (parseInt s));
          logs = (case userId of
                    Some (Finite n) \<Rightarrow>
                      if n \<noteq> 0 then filter (\<lambda>log. user_id log = Num (of_int n)) (usageLogs st)
                      else usageLogs st
                  | _ \<Rightarrow> usageLogs st)
      in (st, Respond \<lparr>status = HTTP_STATUS_OK, success = True, message = None,
                 data = Some logs, error = None, errors = None\<rparr>))"

section \<open>The serving process (the ML service)\<close>

text \<open>
  Modelled from the spec: the \<open>RecommendationResult\<close> of the inference pipeline and the JSON
  object that the response boundary makes of it. What is missing is the Python ML
  service, which computes the answer to \<open>POST /predict\<close>. Spec, sections 3 and 6:
  \<open>RecommendationResult\<close> is \<open>{cluster id, financial_health_score, per-category
  {predicted_label, confidence}}\<close>, over the categories account, savings, loan and digital
  service, serialized into a JSON object exposing cluster id, financial_health_score, a
  mapping from category name to recommended label, and a mapping from category name to
  confidence. The keys are those of the ML service's README.
\<close>

datatype category = Account | Savings | Loan | DigitalService

fun category_name :: "category \<Rightarrow> string" where
  "category_name Account = ''account''"
| "category_name Savings = ''savings''"
| "category_name Loan = ''loan''"
| "category_name DigitalService = ''digital_service''"

definition categories :: "category list" where
  "categories = [Account, Savings, Loan, DigitalService]"

record RecommendationResult =
  cluster :: int
  financial_health_score :: rat
  predicted_label :: "category \<Rightarrow> string"
  confidence :: "category \<Rightarrow> rat"

definition RecommendationResult_json :: "RecommendationResult \<Rightarrow> json" where
  "RecommendationResult_json rr =
     JObj [(''cluster'', JNum (of_int (cluster rr))),
           (''financial_health_score'', JNum (financial_health_score rr)),
           (''recommendations'',
              JObj (map (\<lambda>c. (category_name c, JStr (predicted_label rr c))) categories)),
           (''confidence_scores'',
              JObj (map (\<lambda>c. (category_name c, JNum (confidence rr c))) categories))]"

text \<open>
  Modelled from the spec: the readiness signal of the serving process. What is missing is
  the handler of \<open>GET /health\<close> in the Python ML service. Spec, sections 3 and 6: a serving
  process either has a fully loaded \<open>ModelBundle\<close> or is not ready to serve, and it must
  expose whether a \<open>ModelBundle\<close> is currently loaded, for external health-check
  consumption. The shape of the answer, with its key \<open>models_loaded\<close>, is that of the ML
  service's README. The state of the process is \<open>None\<close> (no bundle loaded) or \<open>Some\<close> bundle.
\<close>

definition ml_health_body :: "bool \<Rightarrow> json" where
  "ml_health_body loaded =
     JObj [(''status'', JStr ''ok''), (''service'', JStr ''ml-service''),
           (''models_loaded'', JBool loaded)]"

definition readiness :: "'bundle option \<Rightarrow> json" where
  "readiness bundle = ml_health_body (case bundle of None \<Rightarrow> False | Some loaded \<Rightarrow> True)"

section \<open>Sample requests and answers\<close>

text \<open>The sample request of the README, with all its twelve fields.\<close>

definition example_body :: body where
  "example_body =
     (\<lambda>f. Undefined)
       (''age'' := Num 30, ''income'' := Num 75000,
        ''employment_status'' := NonNumeric (json_string ''employed''),
        ''credit_score'' := Num 720,
        ''existing_products'' := NonNumeric (''['' @ json_string ''basic_checking'' @ '']''),
        ''monthly_spending'' := Num 2500, ''savings_balance'' := Num 15000,
        ''loan_amount'' := Num 0, ''digital_engagement'' := Num 8,
        ''spending_score'' := Num 65, ''saving_frequency'' := Num 7,
        ''loan_behavior'' := Num 2)"

text \<open>The expected response of the README.\<close>

definition example_recommendation :: RecommendationResponse where
  "example_recommendation =
     \<lparr>recommended_account = ''Basic Checking Account'',
      recommended_savings = ''Standard Savings Account'',
      recommended_loan = ''Auto Loan'',
      recommended_digital_service = ''Premium Digital Banking'',
      cluster_segment = 1\<rparr>"

text \<open>A world whose ML service answers, and one whose ML service answers every request
  with status 503.\<close>

definition ready_world :: "json world" where
  "ready_world =
     \<lparr>post_predict = \<lambda>profile. Resolved 200 (RecommendationResponse_json example_recommendation),
      get_health = Resolved 200 (ml_health_body True),
      now = ''2025-11-27T15:00:00.000Z''\<rparr>"

definition not_ready_world :: "json world" where
  "not_ready_world =
     \<lparr>post_predict = \<lambda>profile. AxiosError ''Request failed with status code 503'' (Some 503),
      get_health = AxiosError ''Request failed with status code 503'' (Some 503),
      now = ''2025-11-27T15:00:00.000Z''\<rparr>"

text \<open>The sample answer of the ML service's README, and a world whose ML service gives
  it.\<close>

definition example_result :: RecommendationResult where
  "example_result =
     \<lparr>cluster = 1, financial_health_score = 145 / 2,
      predicted_label =
        (\<lambda>c. case c of Account \<Rightarrow> ''Basic Checking Account''
               | Savings \<Rightarrow> ''Standard Savings Account''
               | Loan \<Rightarrow> ''Auto Loan''
               | DigitalService \<Rightarrow> ''Premium Digital Banking''),
      confidence =
        (\<lambda>c. case c of Account \<Rightarrow> 85 / 100 | Savings \<Rightarrow> 78 / 100
               | Loan \<Rightarrow> 82 / 100 | DigitalService \<Rightarrow> 91 / 100)\<rparr>"

definition serving_world :: "json world" where
  "serving_world =
     \<lparr>post_predict = \<lambda>profile. Resolved 200 (RecommendationResult_json example_result),
      get_health = Resolved 200 (ml_health_body True),
      now = ''2025-11-27T15:00:00.000Z''\<rparr>"

text \<open>A log of three entries, of the users 1, 2 and 1.\<close>

definition example_usage_store :: usage_store where
  "example_usage_store =
     \<lparr>usageLogs =
        [\<lparr>user_id = Num 1, action = NonNumeric (json_string ''view_dashboard''),
          metadata = NonNumeric ''{}'', entry_id = 1, timestamp = ''2025-11-27T15:00:00.000Z''\<rparr>,
         \<lparr>user_id = Num 2, action = NonNumeric (json_string ''view_dashboard''),
          metadata = NonNumeric ''{}'', entry_id = 2, timestamp = ''2025-11-27T15:00:01.000Z''\<rparr>,
         \<lparr>user_id = Num 1, action = NonNumeric (json_string ''profile_created''),
          metadata = NonNumeric ''{}'', entry_id = 3, timestamp = ''2025-11-27T15:00:02.000Z''\<rparr>],
      nextLogId = 4\<rparr>"

section \<open>Properties\<close>

lemmas HTTP_STATUS_defs =
  HTTP_STATUS_OK_def HTTP_STATUS_CREATED_def HTTP_STATUS_BAD_REQUEST_def
  HTTP_STATUS_NOT_FOUND_def HTTP_STATUS_INTERNAL_SERVER_ERROR_def
  HTTP_STATUS_BAD_GATEWAY_def HTTP_STATUS_SERVICE_UNAVAILABLE_def

lemmas ERROR_MESSAGES_defs =
  ERROR_MESSAGES_VALIDATION_ERROR_def ERROR_MESSAGES_ML_SERVICE_ERROR_def
  ERROR_MESSAGES_INTERNAL_ERROR_def ERROR_MESSAGES_NOT_FOUND_def

subsection \<open>Recommendation requests\<close>

text \<open>
  C1 (as the code has it). When the ML service call fails, whatever the reason and
  whatever the status the ML service answered with (a not-ready answer 503 included),
  \<open>getRecommendation\<close> responds with status \<open>BAD_GATEWAY\<close> (502) and the message
  \<open>ML_SERVICE_ERROR\<close>. Status and message are the same for every failure; only the
  \<open>error\<close> text, which repeats the message of the axios error, differs.
\<close>

theorem getRecommendation_failure_BAD_GATEWAY:
  assumes "\<forall>st d. post_predict w \<lparr>income = b ''income'', spending_score = b ''spending_score'',
             saving_frequency = b ''saving_frequency'', loan_behavior = b ''loan_behavior''\<rparr>
           \<noteq> Resolved st d"
  shows "result (getRecommendation w b) =
      Respond \<lparr>status = HTTP_STATUS_BAD_GATEWAY, success = False,
        message = Some ERROR_MESSAGES_ML_SERVICE_ERROR, data = None,
        error = Some (case post_predict w \<lparr>income = b ''income'',
                             spending_score = b ''spending_score'',
                             saving_frequency = b ''saving_frequency'',
                             loan_behavior = b ''loan_behavior''\<rparr> of
                        AxiosError m st \<Rightarrow> ''ML Service error: '' @ m
                      | _ \<Rightarrow> ''Unexpected error communicating with ML Service''),
        errors = None\<rparr>"
  using assms
  by (cases "post_predict w \<lparr>income = b ''income'', spending_score = b ''spending_score'',
             saving_frequency = b ''saving_frequency'', loan_behavior = b ''loan_behavior''\<rparr>")
     (simp_all add: getRecommendation_def predict_def)

theorem getRecommendation_failure_BAD_GATEWAY_witness:
  "result (getRecommendation not_ready_world example_body) =
      Respond \<lparr>status = 502, success = False,
        message = Some ''ML service communication error'', data = None,
        error = Some ''ML Service error: Request failed with status code 503'',
        errors = None\<rparr>"
proof -
  have h: "\<forall>st d. post_predict not_ready_world
             \<lparr>income = example_body ''income'', spending_score = example_body ''spending_score'',
              saving_frequency = example_body ''saving_frequency'',
              loan_behavior = example_body ''loan_behavior''\<rparr> \<noteq> Resolved st d"
    by (simp add: not_ready_world_def)
  show ?thesis
    using getRecommendation_failure_BAD_GATEWAY [OF h]
    by (simp add: not_ready_world_def HTTP_STATUS_defs ERROR_MESSAGES_defs)
qed

text \<open>The ML service answers 503; the backend answers 502, not \<open>SERVICE_UNAVAILABLE\<close>.\<close>

theorem getRecommendation_not_ready_counterexample:
  "result (getRecommendation not_ready_world example_body) =
      Respond \<lparr>status = 502, success = False,
        message = Some ''ML service communication error'', data = None,
        error = Some ''ML Service error: Request failed with status code 503'',
        errors = None\<rparr>
   \<and> (502 :: nat) \<noteq> HTTP_STATUS_SERVICE_UNAVAILABLE"
  by (simp add: getRecommendation_def predict_def not_ready_world_def
      HTTP_STATUS_defs ERROR_MESSAGES_defs)

lemma RecommendationResult_json_category:
  "map_of (map (\<lambda>c. (category_name c, g c)) categories) (category_name c) = Some (g c)"
  by (cases c) (simp_all add: categories_def)

text \<open>
  C2. For every successful recommendation request, that is, whenever the ML service
  answers the posted profile with the JSON object of a \<open>RecommendationResult\<close>, the
  controller responds with status 200 and \<open>{success: true, data: d}\<close>, where \<open>d\<close> exposes the
  cluster id, the \<open>financial_health_score\<close>, under \<open>recommendations\<close> the recommended label
  of each of the four categories, and under \<open>confidence_scores\<close> the confidence of each of
  the four categories. The controller passes the body of the answer through unchanged.
\<close>

theorem getRecommendation_exposes_RecommendationResult:
  assumes "post_predict w \<lparr>income = b ''income'', spending_score = b ''spending_score'',
             saving_frequency = b ''saving_frequency'', loan_behavior = b ''loan_behavior''\<rparr>
           = Resolved st (RecommendationResult_json rr)"
  shows "\<exists>d labels scores.
      result (getRecommendation w b) =
        Respond \<lparr>status = HTTP_STATUS_OK, success = True, message = None, data = Some d,
          error = None, errors = None\<rparr>
      \<and> d = RecommendationResult_json rr
      \<and> get_prop d ''cluster'' = Some (JNum (of_int (cluster rr)))
      \<and> get_prop d ''financial_health_score'' = Some (JNum (financial_health_score rr))
      \<and> get_prop d ''recommendations'' = Some labels
      \<and> (\<forall>c. get_prop labels (category_name c) = Some (JStr (predicted_label rr c)))
      \<and> get_prop d ''confidence_scores'' = Some scores
      \<and> (\<forall>c. get_prop scores (category_name c) = Some (JNum (confidence rr c)))"
  using assms
  by (simp add: getRecommendation_def predict_def RecommendationResult_json_def
      RecommendationResult_json_category)

theorem getRecommendation_exposes_RecommendationResult_witness:
  "post_predict serving_world \<lparr>income = example_body ''income'',
        spending_score = example_body ''spending_score'',
        saving_frequency = example_body ''saving_frequency'',
        loan_behavior = example_body ''loan_behavior''\<rparr>
      = Resolved 200 (RecommendationResult_json example_result)
   \<and> (\<exists>d labels scores.
        result (getRecommendation serving_world example_body) =
          Respond \<lparr>status = 200, success = True, message = None, data = Some d,
            error = None, errors = None\<rparr>
        \<and> get_prop d ''cluster'' = Some (JNum 1)
        \<and> get_prop d ''financial_health_score'' = Some (JNum (145 / 2))
        \<and> get_prop d ''recommendations'' = Some labels
        \<and> get_prop labels ''loan'' = Some (JStr ''Auto Loan'')
        \<and> get_prop d ''confidence_scores'' = Some scores
        \<and> get_prop scores ''digital_service'' = Some (JNum (91 / 100)))"
proof -
  have h: "post_predict serving_world \<lparr>income = example_body ''income'',
        spending_score = example_body ''spending_score'',
        saving_frequency = example_body ''saving_frequency'',
        loan_behavior = example_body ''loan_behavior''\<rparr>
      = Resolved 200 (RecommendationResult_json example_result)"
    by (simp add: serving_world_def)
  from getRecommendation_exposes_RecommendationResult [OF h]
  obtain d labels scores where r:
    "result (getRecommendation serving_world example_body) =
        Respond \<lparr>status = HTTP_STATUS_OK, success = True, message = None, data = Some d,
          error = None, errors = None\<rparr>"
    "get_prop d ''cluster'' = Some (JNum (of_int (cluster example_result)))"
    "get_prop d ''financial_health_score'' = Some (JNum (financial_health_score example_result))"
    "get_prop d ''recommendations'' = Some labels"
    "\<forall>c. get_prop labels (category_name c) = Some (JStr (predicted_label example_result c))"
    "get_prop d ''confidence_scores'' = Some scores"
    "\<forall>c. get_prop scores (category_name c) = Some (JNum (confidence example_result c))"
    by blast
  from r(5) [rule_format, of Loan]
  have l: "get_prop labels ''loan'' = Some (JStr ''Auto Loan'')"
    by (simp add: example_result_def)
  from r(7) [rule_format, of DigitalService]
  have c: "get_prop scores ''digital_service'' = Some (JNum (91 / 100))"
    by (simp add: example_result_def)
  from r(1,2,3,4,6) l c h show ?thesis
    by (simp add: example_result_def HTTP_STATUS_defs)
qed

text \<open>
  C3 (as the code has it). The \<open>UserProfile\<close> that \<open>getRecommendation\<close> builds from the
  request body, and posts to the ML service, has the four fields \<open>income\<close>,
  \<open>spending_score\<close>, \<open>saving_frequency\<close> and \<open>loan_behavior\<close>, copied from the body. No
  other field of the body reaches it.
\<close>

theorem getRecommendation_profile_four_fields:
  "ml_requests (getRecommendation w b) =
     [\<lparr>income = b ''income'', spending_score = b ''spending_score'',
       saving_frequency = b ''saving_frequency'', loan_behavior = b ''loan_behavior''\<rparr>]
   \<and> (f \<notin> {''income'', ''spending_score'', ''saving_frequency'', ''loan_behavior''} \<longrightarrow>
        ml_requests (getRecommendation w (b(f := v))) = ml_requests (getRecommendation w b))"
  by (auto simp add: getRecommendation_def Let_def)

theorem getRecommendation_profile_four_fields_witness:
  "''credit_score'' \<notin> {''income'', ''spending_score'', ''saving_frequency'', ''loan_behavior''}
   \<and> ml_requests (getRecommendation ready_world (example_body(''credit_score'' := Num 300)))
       = ml_requests (getRecommendation ready_world example_body)
   \<and> ml_requests (getRecommendation ready_world example_body)
       = [\<lparr>income = Num 75000, spending_score = Num 65, saving_frequency = Num 7,
           loan_behavior = Num 2\<rparr>]"
  using getRecommendation_profile_four_fields
      [of ready_world example_body "''credit_score''" "Num 300"]
  by (simp add: example_body_def)

text \<open>Of the README's sample request, eight fields are dropped: the request without
  them builds the same profile.\<close>

theorem getRecommendation_profile_counterexample:
  "ml_requests (getRecommendation ready_world example_body)
     = ml_requests (getRecommendation ready_world
         (example_body(''age'' := Undefined, ''credit_score'' := Undefined,
            ''employment_status'' := Undefined, ''existing_products'' := Undefined,
            ''monthly_spending'' := Undefined, ''savings_balance'' := Undefined,
            ''loan_amount'' := Undefined, ''digital_engagement'' := Undefined)))
   \<and> ml_requests (getRecommendation ready_world example_body)
     = [\<lparr>income = Num 75000, spending_score = Num 65, saving_frequency = Num 7,
         loan_behavior = Num 2\<rparr>]
   \<and> example_body ''age'' = Num 30 \<and> example_body ''credit_score'' = Num 720
   \<and> example_body ''employment_status'' = NonNumeric (json_string ''employed'')
   \<and> example_body ''monthly_spending'' = Num 2500
   \<and> example_body ''savings_balance'' = Num 15000
   \<and> example_body ''digital_engagement'' = Num 8"
  by (simp add: getRecommendation_def example_body_def Let_def)

subsection \<open>Validation\<close>








text \<open>
  C5. For every recommendation request that fails validation (the validation result is
  not empty), the validation middleware does not call \<open>next()\<close>: the route answers with
  status 400, the message \<open>VALIDATION_ERROR\<close> and the validation errors, and no prediction
  is requested from the ML service.
\<close>

theorem validate_failure_responds_400:
  assumes "validationResult profileValidationRules b \<noteq> []"
  shows "(validate profileValidationRules b :: 'd handler_result) \<noteq> Next
   \<and> recommendation_routes_post w b =
       \<lparr>result = Respond \<lparr>status = HTTP_STATUS_BAD_REQUEST, success = False,
                   message = Some ERROR_MESSAGES_VALIDATION_ERROR, data = None,
                   error = None, errors = Some (validationResult profileValidationRules b)\<rparr>,
        ml_requests = []\<rparr>"
  using assms by (simp add: recommendation_routes_post_def validate_def Let_def)

theorem validate_failure_responds_400_witness:
  "validationResult profileValidationRules (example_body(''income'' := Undefined)) \<noteq> []
   \<and> recommendation_routes_post ready_world (example_body(''income'' := Undefined)) =
       \<lparr>result = Respond \<lparr>status = 400, success = False,
            message = Some ''Validation error'', data = None, error = None,
            errors = Some
              [\<lparr>param = ''income'', msg = ''Income is required'', value = Undefined\<rparr>,
               \<lparr>param = ''income'', msg = ''Income must be a number'', value = Undefined\<rparr>,
               \<lparr>param = ''income'', msg = ''Income must be non-negative'', value = Undefined\<rparr>]\<rparr>,
        ml_requests = []\<rparr>"
proof -
  have e: "validationResult profileValidationRules (example_body(''income'' := Undefined)) =
     [\<lparr>param = ''income'', msg = ''Income is required'', value = Undefined\<rparr>,
      \<lparr>param = ''income'', msg = ''Income must be a number'', value = Undefined\<rparr>,
      \<lparr>param = ''income'', msg = ''Income must be non-negative'', value = Undefined\<rparr>]"
    by (simp add: validationResult_def run_def profileValidationRules_def example_body_def
        prints_plain_def)
  then have h: "validationResult profileValidationRules (example_body(''income'' := Undefined)) \<noteq> []"
    by simp
  show ?thesis
    using validate_failure_responds_400 [OF h, of ready_world, where ?'d = json] h e
    by (simp add: HTTP_STATUS_defs ERROR_MESSAGES_defs)
qed

subsection \<open>Health\<close>

text \<open>
  C6. The readiness response of the serving process tells whether a \<open>ModelBundle\<close> is
  loaded: its key \<open>models_loaded\<close> is \<open>true\<close> exactly in the loaded state, so the response of
  a process with a bundle differs from that of a process without one, and two responses
  are equal exactly when the two processes agree on having a bundle.
\<close>

theorem readiness_exposes_bundle_loaded:
  "get_prop (readiness bundle) ''models_loaded'' = Some (JBool (bundle \<noteq> None))
   \<and> readiness (Some loaded) \<noteq> readiness None
   \<and> (readiness bundle = readiness bundle' \<longleftrightarrow> (bundle = None) = (bundle' = None))"
  by (cases "bundle"; cases "bundle'") (simp_all add: readiness_def ml_health_body_def)

text \<open>
  The gateway's own \<open>/health\<close> endpoint is another matter: it answers with status 200 and
  the same object, in which only the time stamp varies, whatever the ML service does.
\<close>

lemma health_routes_get_ignores_ml_service:
  "health_routes_get w =
     (200, JObj [(''success'', JBool True), (''message'', JStr ''Backend service is healthy''),
                 (''timestamp'', JStr (now w)), (''service'', JStr ''smartbank-backend'')])
   \<and> health_routes_get (w\<lparr>post_predict := p, get_health := g\<rparr>) = health_routes_get w"
  by (simp add: health_routes_get_def)

subsection \<open>Usage logs\<close>

lemma parseInt_Nil: "parseInt [] = NaN"
  by (simp add: parseInt_def)

text \<open>
  C8. In every state of the usage log, \<open>getUsageLogs\<close> with a \<open>user_id\<close> parameter that
  parses to an integer \<open>n\<close> other than 0 returns the logged entries whose \<open>user_id\<close> is
  the number \<open>n\<close> (equal as \<open>===\<close> has it), in the order of the log, which is the order of
  insertion (\<open>logUsage\<close> appends); without the parameter, or when it parses to 0 or to
  \<open>NaN\<close>, it returns the whole log. The log itself is not changed.
\<close>

theorem getUsageLogs_filters_by_user_id:
  "(q = Some s \<and> parseInt s = Finite n \<and> n \<noteq> 0 \<longrightarrow>
      getUsageLogs st q =
        (st, Respond \<lparr>status = HTTP_STATUS_OK, success = True, message = None,
               data = Some (filter (\<lambda>log. user_id log = Num (of_int n)) (usageLogs st)),
               error = None, errors = None\<rparr>))
   \<and> (q = None \<or> (q = Some s \<and> (parseInt s = Finite 0 \<or> parseInt s = NaN)) \<longrightarrow>
      getUsageLogs st q =
        (st, Respond \<lparr>status = HTTP_STATUS_OK, success = True, message = None,
               data = Some (usageLogs st), error = None, errors = None\<rparr>))
   \<and> usageLogs (fst (logUsage w st b)) =
        usageLogs st @
          [\<lparr>user_id = b ''user_id'', action = b ''action'',
            metadata = (if truthy (b ''metadata'') then b ''metadata'' else NonNumeric ''{}''),
            entry_id = nextLogId st, timestamp = now w\<rparr>]"
proof (intro conjI impI)
  assume a: "q = Some s \<and> parseInt s = Finite n \<and> n \<noteq> 0"
  then have "s \<noteq> []" using parseInt_Nil by auto
  with a show "getUsageLogs st q =
        (st, Respond \<lparr>status = HTTP_STATUS_OK, success = True, message = None,
               data = Some (filter (\<lambda>log. user_id log = Num (of_int n)) (usageLogs st)),
               error = None, errors = None\<rparr>)"
    by (simp add: getUsageLogs_def)
next
  assume "q = None \<or> (q = Some s \<and> (parseInt s = Finite 0 \<or> parseInt s = NaN))"
  then show "getUsageLogs st q =
        (st, Respond \<lparr>status = HTTP_STATUS_OK, success = True, message = None,
               data = Some (usageLogs st), error = None, errors = None\<rparr>)"
    by (auto simp add: getUsageLogs_def)
next
  show "usageLogs (fst (logUsage w st b)) =
        usageLogs st @
          [\<lparr>user_id = b ''user_id'', action = b ''action'',
            metadata = (if truthy (b ''metadata'') then b ''metadata'' else NonNumeric ''{}''),
            entry_id = nextLogId st, timestamp = now w\<rparr>]"
    by (simp add: logUsage_def Let_def)
qed

theorem getUsageLogs_filters_by_user_id_witness:
  "parseInt ''1'' = Finite 1
   \<and> map entry_id (the (data (case snd (getUsageLogs example_usage_store (Some ''1'')) of
         Respond r \<Rightarrow> r))) = [1, 3]
   \<and> parseInt ''abc'' = NaN
   \<and> map entry_id (the (data (case snd (getUsageLogs example_usage_store (Some ''abc'')) of
         Respond r \<Rightarrow> r))) = [1, 2, 3]
   \<and> fst (getUsageLogs example_usage_store (Some ''1'')) = example_usage_store"
proof -
  have p1: "parseInt ''1'' = Finite 1"
    by (simp add: parseInt_def isWhiteSpace_def isDigit_def digits_value_def)
  have p2: "parseInt ''abc'' = NaN"
    by (simp add: parseInt_def isWhiteSpace_def isDigit_def digits_value_def)
  show ?thesis
    using getUsageLogs_filters_by_user_id
        [of "Some ''1''" "''1''" 1 example_usage_store ready_world example_body]
      getUsageLogs_filters_by_user_id
        [of "Some ''abc''" "''abc''" 1 example_usage_store ready_world example_body]
    by (simp add: p1 p2 example_usage_store_def)
qed

subsection \<open>The profile store\<close>

lemma getProfile_store: "fst (getProfile st idParam) = st"
  by (simp add: getProfile_def split: jsnumber.splits option.splits)

lemma createProfile_nextId: "nextId (fst (createProfile w st b)) = nextId st + 1"
  by (simp add: createProfile_def Let_def)

lemma createProfile_profiles:
  "profiles (fst (createProfile w st b)) =
     (profiles st)(nextId st \<mapsto>
        \<lparr>income = b ''income'', spending_score = b ''spending_score'',
         saving_frequency = b ''saving_frequency'', loan_behavior = b ''loan_behavior'',
         id' = nextId st, created_at = now w, updated_at = now w\<rparr>)"
  by (simp add: createProfile_def Let_def)

lemma createProfile_inv:
  assumes "profile_store_inv st"
  shows "profile_store_inv (fst (createProfile w st b))"
proof -
  from assms have d: "dom (profiles st) = {1 ..< nextId st}" and n: "1 \<le> nextId st"
    and e: "\<And>k p. profiles st k = Some p \<Longrightarrow> id' p = k \<and> created_at p = updated_at p"
    by (auto simp: profile_store_inv_def)
  have "insert (nextId st) {1 ..< nextId st} = {1 ..< nextId st + 1}"
    using n by auto
  with d have "dom (profiles (fst (createProfile w st b)))
      = {1 ..< nextId (fst (createProfile w st b))}"
    by (simp add: createProfile_profiles createProfile_nextId)
  moreover have "1 \<le> nextId (fst (createProfile w st b))"
    using n by (simp add: createProfile_nextId)
  moreover have "\<And>k p. profiles (fst (createProfile w st b)) k = Some p \<Longrightarrow>
      id' p = k \<and> created_at p = updated_at p"
    using e by (auto simp: createProfile_profiles split: if_splits)
  ultimately show ?thesis
    unfolding profile_store_inv_def by blast
qed

lemma profile_step_inv: "profile_store_inv st \<Longrightarrow> profile_store_inv (profile_step st r)"
  by (cases r) (simp_all add: createProfile_inv getProfile_store)

lemma profile_step_nextId:
  "nextId (profile_step st r) = nextId st + (if is_create r then 1 else 0)"
  by (cases r) (simp_all add: createProfile_nextId getProfile_store)

lemma profile_run_snoc: "profile_run (reqs @ [r]) = profile_step (profile_run reqs) r"
  by (simp add: profile_run_def)

lemma profile_run_inv: "profile_store_inv (profile_run reqs)"
proof (induction reqs rule: rev_induct)
  case Nil
  show ?case by (simp add: profile_run_def profile_store_init_def profile_store_inv_def)
next
  case (snoc r reqs)
  then show ?case by (simp add: profile_run_snoc profile_step_inv)
qed

lemma profile_run_nextId:
  "nextId (profile_run reqs) = 1 + int (length (filter is_create reqs))"
proof (induction reqs rule: rev_induct)
  case Nil
  show ?case by (simp add: profile_run_def profile_store_init_def)
next
  case (snoc r reqs)
  then show ?case by (simp add: profile_run_snoc profile_step_nextId)
qed

text \<open>
  C9. After any sequence of \<open>createProfile\<close> and \<open>getProfile\<close> requests, starting from the
  empty store with \<open>nextId = 1\<close>: \<open>nextId\<close> is one more than the number of \<open>createProfile\<close>
  calls, the stored ids are exactly \<open>1, ..., nextId - 1\<close>, every stored profile carries
  the id it is stored under (so two entries never share an id), and its \<open>created_at\<close>
  equals its \<open>updated_at\<close>. In any state, \<open>createProfile\<close> stores and returns a profile
  with the id \<open>nextId\<close> and both time stamps equal to the current time, and increments
  \<open>nextId\<close> by one; \<open>getProfile\<close> leaves the store as it is.
\<close>

theorem profile_store_unique_ids:
  "nextId (profile_run reqs) = 1 + int (length (filter is_create reqs))
   \<and> dom (profiles (profile_run reqs)) = {1 ..< nextId (profile_run reqs)}
   \<and> (\<forall>k p. profiles (profile_run reqs) k = Some p \<longrightarrow>
         id' p = k \<and> created_at p = updated_at p)
   \<and> (\<forall>k k' p p'. profiles (profile_run reqs) k = Some p
         \<and> profiles (profile_run reqs) k' = Some p' \<and> k \<noteq> k' \<longrightarrow> id' p \<noteq> id' p')
   \<and> snd (createProfile w st b) =
        Respond \<lparr>status = HTTP_STATUS_CREATED, success = True,
          message = Some ''Profile created successfully'',
          data = Some \<lparr>income = b ''income'', spending_score = b ''spending_score'',
                   saving_frequency = b ''saving_frequency'',
                   loan_behavior = b ''loan_behavior'',
                   id' = nextId st, created_at = now w, updated_at = now w\<rparr>,
          error = None, errors = None\<rparr>
   \<and> profiles (fst (createProfile w st b)) (nextId st) =
        Some \<lparr>income = b ''income'', spending_score = b ''spending_score'',
               saving_frequency = b ''saving_frequency'', loan_behavior = b ''loan_behavior'',
               id' = nextId st, created_at = now w, updated_at = now w\<rparr>
   \<and> nextId (fst (createProfile w st b)) = nextId st + 1
   \<and> fst (getProfile st idParam) = st"
proof -
  have inv: "profile_store_inv (profile_run reqs)" by (rule profile_run_inv)
  then have a: "dom (profiles (profile_run reqs)) = {1 ..< nextId (profile_run reqs)}"
    and b: "\<forall>k p. profiles (profile_run reqs) k = Some p \<longrightarrow>
         id' p = k \<and> created_at p = updated_at p"
    by (simp_all add: profile_store_inv_def)
  from b have c: "\<forall>k k' p p'. profiles (profile_run reqs) k = Some p
         \<and> profiles (profile_run reqs) k' = Some p' \<and> k \<noteq> k' \<longrightarrow> id' p \<noteq> id' p'"
    by metis
  have d: "snd (createProfile w st b) =
        Respond \<lparr>status = HTTP_STATUS_CREATED, success = True,
          message = Some ''Profile created successfully'',
          data = Some \<lparr>income = b ''income'', spending_score = b ''spending_score'',
                   saving_frequency = b ''saving_frequency'',
                   loan_behavior = b ''loan_behavior'',
                   id' = nextId st, created_at = now w, updated_at = now w\<rparr>,
          error = None, errors = None\<rparr>"
    by (simp add: createProfile_def Let_def)
  show ?thesis
    using a b c d profile_run_nextId [of reqs] createProfile_nextId [of w st b]
      getProfile_store [of st idParam]
    by (simp add: createProfile_profiles)
qed

theorem profile_store_unique_ids_witness:
  "nextId (profile_run [CreateProfile ready_world example_body, GetProfile ''1'',
        CreateProfile not_ready_world example_body]) = 3
   \<and> profiles (profile_run [CreateProfile ready_world example_body, GetProfile ''1'',
        CreateProfile not_ready_world example_body]) 2 =
      Some \<lparr>income = Num 75000, spending_score = Num 65, saving_frequency = Num 7,
             loan_behavior = Num 2, id' = 2, created_at = ''2025-11-27T15:00:00.000Z'',
             updated_at = ''2025-11-27T15:00:00.000Z''\<rparr>
   \<and> id' (the (profiles (profile_run [CreateProfile ready_world example_body,
        GetProfile ''1'', CreateProfile not_ready_world example_body]) 1)) = 1"
proof -
  have r: "profiles (profile_run [CreateProfile ready_world example_body, GetProfile ''1'',
        CreateProfile not_ready_world example_body]) 2 =
      Some \<lparr>income = Num 75000, spending_score = Num 65, saving_frequency = Num 7,
             loan_behavior = Num 2, id' = 2, created_at = ''2025-11-27T15:00:00.000Z'',
             updated_at = ''2025-11-27T15:00:00.000Z''\<rparr>"
    by (simp add: profile_run_def profile_store_init_def createProfile_def getProfile_def
        parseInt_def isWhiteSpace_def isDigit_def digits_value_def
        example_body_def ready_world_def not_ready_world_def Let_def)
  have r1: "profiles (profile_run [CreateProfile ready_world example_body, GetProfile ''1'',
        CreateProfile not_ready_world example_body]) 1 \<noteq> None"
    by (simp add: profile_run_def profile_store_init_def createProfile_def getProfile_def
        parseInt_def isWhiteSpace_def isDigit_def digits_value_def Let_def)
  show ?thesis
    using profile_store_unique_ids [of "[CreateProfile ready_world example_body,
        GetProfile ''1'', CreateProfile not_ready_world example_body]"
        ready_world profile_store_init example_body "''1''"] r r1
    by auto
qed

subsection \<open>The ML service client\<close>

text \<open>
  C10. \<open>MLServiceClient.predict\<close> returns the body of the ML service's response
  unchanged when the request resolves, and throws an \<open>Error\<close> in every other case: it
  returns a value only when the request resolved, and then that very body.
  \<open>MLServiceClient.healthCheck\<close> never throws: it returns \<open>true\<close> exactly when the health
  request resolves with status 200, and \<open>false\<close> whenever the request fails.
\<close>

theorem predict_body_or_Error_healthCheck_total:
  "(predict w p = Inr d \<longleftrightarrow> (\<exists>st. post_predict w p = Resolved st d))
   \<and> ((\<forall>st d'. post_predict w p \<noteq> Resolved st d') \<longleftrightarrow> (\<exists>m. predict w p = Inl (Error m)))
   \<and> healthCheck w = Inr (\<exists>d'. get_health w = Resolved 200 d')
   \<and> ((\<forall>st d'. get_health w \<noteq> Resolved st d') \<longrightarrow> healthCheck w = Inr False)"
  by (auto simp: predict_def healthCheck_def split: axios_result.splits)

theorem predict_body_or_Error_healthCheck_total_witness:
  "predict \<lparr>post_predict = \<lambda>p. Resolved 200 (JStr ''ok''),
            get_health = AxiosError ''timeout of 10000ms exceeded'' None, now = ''t''\<rparr>
      \<lparr>income = Num 1, spending_score = Num 2, saving_frequency = Num 3, loan_behavior = Num 4\<rparr>
     = Inr (JStr ''ok'')
   \<and> healthCheck \<lparr>post_predict = \<lambda>p. Resolved 200 (JStr ''ok''),
            get_health = AxiosError ''timeout of 10000ms exceeded'' None, now = ''t''\<rparr>
     = Inr False"
  using predict_body_or_Error_healthCheck_total
    [of "\<lparr>post_predict = \<lambda>p. Resolved 200 (JStr ''ok''),
            get_health = AxiosError ''timeout of 10000ms exceeded'' None, now = ''t''\<rparr>"
        "\<lparr>income = Num 1, spending_score = Num 2, saving_frequency = Num 3, loan_behavior = Num 4\<rparr>"
        "JStr ''ok''"]
  by simp

end
